theory Spec2Isabelle
  imports Main
begin

section \<open>fprime.fbuild.target: the data model\<close>

text \<open>
  The module keeps Python objects that refer to each other (a delegator to its delegate, a
  composite to its children, the class attribute \<open>ALL_TARGETS\<close> to every registered
  target) and mutates one attribute, \<open>scope\<close>, through such a reference. Objects therefore
  live in an explicit store: a reference is a natural number and the store maps references
  to objects.
\<close>

type_synonym ref = nat

text \<open>\<open>class TargetScope(Enum)\<close>: \<open>GLOBAL = 0x1\<close>, \<open>LOCAL = 0x2\<close>, \<open>BOTH = GLOBAL | LOCAL\<close>.
  Members of an \<open>Enum\<close> are compared by identity, so the three members are three
  constructors.\<close>

datatype TargetScope = GLOBAL | LOCAL | BOTH

text \<open>Modelled from the spec: the enumeration \<open>BuildType\<close> of \<open>fprime.fbuild.types\<close>, imported
  by the module and not part of the sources at hand. The spec describes it as the build
  configuration class, normal versus testing; the module itself names the member
  \<open>BUILD_NORMAL\<close>, its docstring \<open>BUILD_TESTING\<close> as well.\<close>

datatype BuildType = BUILD_NORMAL | BUILD_TESTING

text \<open>The attribute a subclass of \<open>Target\<close> adds in its own \<open>__init__\<close>, after
  \<open>super().__init__\<close> has returned: \<open>self.targets\<close>, \<open>self.build_target\<close>,
  \<open>self.delegate\<close>. The constructor also tells the class of the object, which selects the
  \<open>execute\<close> method. \<open>Target\<close> itself leaves \<open>execute\<close> abstract and cannot be instantiated,
  so every target of the module is an instance of one of the three subclasses.\<close>

datatype kind =
    CompositeTarget (targets: "ref list")
  | BuildSystemTarget (build_target: string)
  | DelegatorTarget (delegate: ref)

text \<open>An instance of \<open>Target\<close>. \<open>flags\<close> is a Python \<open>set\<close> of strings. \<open>kind\<close> is \<open>None\<close>
  between the assignments of \<open>Target.__init__\<close> and the assignment of the subclass
  attribute.\<close>

record target =
  mnemonic :: string
  desc :: string
  build_type :: BuildType
  flags :: "string set"
  scope :: TargetScope
  kind :: "kind option"

text \<open>The part of the interpreter state the module works on: the objects, the next
  reference to hand out, and the class attribute \<open>Target.ALL_TARGETS\<close>.\<close>

record world =
  objs :: "ref \<rightharpoonup> target"
  fresh :: ref
  ALL_TARGETS :: "ref list"

definition init :: world where
  "init = \<lparr>objs = Map.empty, fresh = 0, ALL_TARGETS = []\<rparr>"

text \<open>Exceptions. \<open>NoSuchTargetException\<close> is the class the module imports from
  \<open>fprime.fbuild.types\<close> and constructs from one message; \<open>AssertionError\<close> is what a failed
  \<open>assert\<close> raises, with its message. \<open>Raised e\<close> is whatever the builder raises; \<open>AttributeError\<close> is the
  outcome of reading an attribute that an object does not have (in the model also the
  outcome at a reference outside the store, which Python cannot form);
  \<open>RecursionError\<close> is raised by the interpreter when calls nest deeper than its limit.\<close>

datatype 'e exn =
    NoSuchTargetException string
  | AssertionError string
  | AttributeError
  | RecursionError
  | Raised 'e

section \<open>Target\<close>

subsection \<open>config_string\<close>

text \<open>\<open>sep.join(xs)\<close> of Python.\<close>

fun str_join :: "string \<Rightarrow> string list \<Rightarrow> string" where
  "str_join sep [] = []"
| "str_join sep [x] = x"
| "str_join sep (x # y # ys) = x @ sep @ str_join sep (y # ys)"

text \<open>\<open>Target.config_string(mnemonic, flags)\<close>. The comprehension iterates over the set
  \<open>flags\<close>; the list \<open>fs\<close> is the elements of that set in the order the iteration
  yields them, which Python leaves open.\<close>

definition config_string :: "string \<Rightarrow> string list \<Rightarrow> string" where
  "config_string m fs =
     (let flag_string = str_join '' '' (map (\<lambda>flag. ''--'' @ flag) fs);
          flag_string = (if flag_string = [] then [] else '' '' @ flag_string)
      in m @ flag_string)"

text \<open>\<open>Target.__str__\<close>. \<open>it\<close> is the iteration order of sets: \<open>it F\<close> lists the elements of
  \<open>F\<close> as a loop over \<open>F\<close> meets them.\<close>

definition Target_str :: "(string set \<Rightarrow> string list) \<Rightarrow> target \<Rightarrow> string" where
  "Target_str it self = config_string (mnemonic self) (it (flags self))"

subsection \<open>The constructors\<close>

text \<open>Assignment of the subclass attribute of the object \<open>self\<close>.\<close>

definition set_kind :: "ref \<Rightarrow> kind \<Rightarrow> world \<Rightarrow> world" where
  "set_kind self k w =
     (case objs w self of
        None \<Rightarrow> w
      | Some t \<Rightarrow> w\<lparr>objs := (objs w)(self \<mapsto> t\<lparr>kind := Some k\<rparr>)\<rparr>)"

text \<open>
  \<open>Target.__init__(self, mnemonic, desc, scope, build_type=None, flags=None)\<close>, and the
  construction \<open>DelegatorTarget(delegate, mnemonic, desc, scope, build_type, flags)\<close>: the
  interpreter allocates the object, \<open>DelegatorTarget.__init__\<close> runs \<open>Target.__init__\<close> on
  it and then assigns \<open>self.delegate\<close>. The two call each other: a target of scope
  \<open>BOTH\<close> constructs two delegators, of scope \<open>LOCAL\<close> and \<open>GLOBAL\<close>. The delegators
  receive the parameters \<open>build_type\<close> and \<open>flags\<close> as they were passed, not the defaulted
  attributes. In \<open>new_flags.union(flags) if flags else new_flags\<close> the parameter \<open>flags\<close>
  counts as false when it is \<open>None\<close> or the empty set.
\<close>

function
  Target_init :: "ref \<Rightarrow> string \<Rightarrow> string \<Rightarrow> TargetScope \<Rightarrow> BuildType option \<Rightarrow>
                  string set option \<Rightarrow> world \<Rightarrow> world"
and
  new_DelegatorTarget :: "ref \<Rightarrow> string \<Rightarrow> string \<Rightarrow> TargetScope \<Rightarrow> BuildType option \<Rightarrow>
                  string set option \<Rightarrow> world \<Rightarrow> ref \<times> world"
where
  "Target_init self m d s bt fl w =
     (let w1 = w\<lparr>objs := (objs w)(self \<mapsto>
                 \<lparr>mnemonic = m, desc = d,
                  build_type = (case bt of Some b \<Rightarrow> b | None \<Rightarrow> BUILD_NORMAL),
                  flags = (case fl of Some F \<Rightarrow> F | None \<Rightarrow> {}),
                  scope = s, kind = None\<rparr>)\<rparr>
      in if s \<noteq> BOTH then w1\<lparr>ALL_TARGETS := ALL_TARGETS w1 @ [self]\<rparr>
         else
           (let w2 = snd (new_DelegatorTarget self m d LOCAL bt fl w1);
                new_flags = {''-all''};
                new_flags = (case fl of
                               None \<Rightarrow> new_flags
                             | Some F \<Rightarrow> if F \<noteq> {} then new_flags \<union> F else new_flags)
            in snd (new_DelegatorTarget self m d GLOBAL bt (Some new_flags) w2)))"
| "new_DelegatorTarget dlg m d s bt fl w =
     (let self = fresh w;
          w0 = w\<lparr>fresh := Suc self\<rparr>;
          w1 = Target_init self m d s bt fl w0
      in (self, set_kind self (DelegatorTarget dlg) w1))"
  by pat_completeness auto

termination
  by (relation "measure (\<lambda>x. case x of
          Inl (self, m, d, s, r) \<Rightarrow> (if s = BOTH then 2 else 0)
        | Inr (dlg, m, d, s, r) \<Rightarrow> (if s = BOTH then 3 else 1))") auto

declare Target_init.simps [simp del] new_DelegatorTarget.simps [simp del]

text \<open>\<open>CompositeTarget(targets, mnemonic, desc, scope, build_type, flags)\<close> and
  \<open>BuildSystemTarget(build_target, mnemonic, desc, scope, build_type, flags)\<close>: allocation,
  \<open>super().__init__\<close>, then the assignment of the subclass attribute.\<close>

definition new_CompositeTarget ::
  "ref list \<Rightarrow> string \<Rightarrow> string \<Rightarrow> TargetScope \<Rightarrow> BuildType option \<Rightarrow>
   string set option \<Rightarrow> world \<Rightarrow> ref \<times> world" where
  "new_CompositeTarget cs m d s bt fl w =
     (let self = fresh w;
          w0 = w\<lparr>fresh := Suc self\<rparr>;
          w1 = Target_init self m d s bt fl w0
      in (self, set_kind self (CompositeTarget cs) w1))"

definition new_BuildSystemTarget ::
  "string \<Rightarrow> string \<Rightarrow> string \<Rightarrow> TargetScope \<Rightarrow> BuildType option \<Rightarrow>
   string set option \<Rightarrow> world \<Rightarrow> ref \<times> world" where
  "new_BuildSystemTarget b m d s bt fl w =
     (let self = fresh w;
          w0 = w\<lparr>fresh := Suc self\<rparr>;
          w1 = Target_init self m d s bt fl w0
      in (self, set_kind self (BuildSystemTarget b) w1))"

subsection \<open>The registry\<close>

text \<open>\<open>Target.get_all_targets()\<close>.\<close>

definition get_all_targets :: "world \<Rightarrow> ref list" where
  "get_all_targets w = ALL_TARGETS w"

text \<open>\<open>item.flags\<close> for a reference of the registry. Every reference a Python program holds
  is to a live object; outside the store the model reads the empty set.\<close>

definition flags_of :: "world \<Rightarrow> ref \<Rightarrow> string set" where
  "flags_of w r = (case objs w r of None \<Rightarrow> {} | Some t \<Rightarrow> flags t)"

text \<open>\<open>Target.get_all_possible_flags()\<close>:
  \<open>functools.reduce(lambda agg, item: agg.union(item.flags), cls.get_all_targets(), set())\<close>.\<close>

definition get_all_possible_flags :: "world \<Rightarrow> string set" where
  "get_all_possible_flags w =
     foldl (\<lambda>agg item. agg \<union> flags_of w item) {} (get_all_targets w)"

text \<open>The test of the loop of \<open>get_target\<close>:
  \<open>target.mnemonic == mnemonic and flags == target.flags\<close>.\<close>

definition matches :: "world \<Rightarrow> string \<Rightarrow> string set \<Rightarrow> ref \<Rightarrow> bool" where
  "matches w m F r =
     (case objs w r of None \<Rightarrow> False | Some t \<Rightarrow> mnemonic t = m \<and> F = flags t)"

text \<open>\<open>Target.get_target(mnemonic, flags)\<close>. The loop collects the matching targets in
  registry order; no match raises \<open>NoSuchTargetException\<close>, whose message quotes
  \<open>config_string(mnemonic, flags)\<close>; the \<open>assert\<close> raises \<open>AssertionError\<close> when more than
  one matched.\<close>

definition get_target ::
  "(string set \<Rightarrow> string list) \<Rightarrow> string \<Rightarrow> string set \<Rightarrow> world \<Rightarrow> 'e exn + ref" where
  "get_target it m F w =
     (let matching = filter (matches w m F) (get_all_targets w)
      in if matching = [] then
           Inl (NoSuchTargetException
                  (''Could not find target '' @ [CHR 0x27] @ config_string m (it F) @ [CHR 0x27]))
         else if length matching \<noteq> 1 then
           Inl (AssertionError ''Conflicting targets specified in code'')
         else Inr (hd matching))"

section \<open>Execution\<close>

text \<open>
  \<open>execute(self, builder, context, args)\<close> works on the objects and on the builder, the
  external collaborator whose only entry point is
  \<open>execute_build_target(build_target, context, is_global, args)\<close>. A call of that method is
  recorded as the tuple of its four arguments. The builder is modelled by its answer to a
  call given the calls made before: \<open>None\<close> when it returns, \<open>Some e\<close> when it raises \<open>e\<close>.
  It has no access to the targets. The state of an execution is the pair of the world and
  the list of the calls the builder has received.
\<close>

type_synonym ('c, 'a) bcall = "string \<times> 'c \<times> bool \<times> 'a"

type_synonym ('c, 'a, 'e) builder = "('c, 'a) bcall list \<Rightarrow> ('c, 'a) bcall \<Rightarrow> 'e option"

text \<open>Assignment \<open>r.scope = s\<close>.\<close>

definition set_scope :: "ref \<Rightarrow> TargetScope \<Rightarrow> world \<Rightarrow> world" where
  "set_scope r s w =
     (case objs w r of
        None \<Rightarrow> w
      | Some t \<Rightarrow> w\<lparr>objs := (objs w)(r \<mapsto> t\<lparr>scope := s\<rparr>)\<rparr>)"

text \<open>The loop \<open>for child in self.targets: child.execute(*args, **kwargs)\<close>. \<open>call\<close> is the
  method call \<open>child.execute\<close>, resolved by the class of the child; an exception of a child
  leaves the loop.\<close>

fun execute_children ::
  "(ref \<Rightarrow> 'c \<Rightarrow> 'a \<Rightarrow> 's \<Rightarrow> ('x + 'v) \<times> 's) \<Rightarrow> ref list \<Rightarrow> 'c \<Rightarrow> 'a \<Rightarrow> 's \<Rightarrow> ('x + unit) \<times> 's"
where
  "execute_children call [] ctx args st = (Inr (), st)"
| "execute_children call (child # rest) ctx args st =
     (case call child ctx args st of
        (Inl e, st') \<Rightarrow> (Inl e, st')
      | (Inr v, st') \<Rightarrow> execute_children call rest ctx args st')"

text \<open>\<open>CompositeTarget.execute\<close>.\<close>

definition CompositeTarget_execute ::
  "(ref \<Rightarrow> 'c \<Rightarrow> 'a \<Rightarrow> world \<times> 'l \<Rightarrow> ('e exn + 'v) \<times> world \<times> 'l) \<Rightarrow>
   ref \<Rightarrow> 'c \<Rightarrow> 'a \<Rightarrow> world \<times> 'l \<Rightarrow> ('e exn + unit) \<times> world \<times> 'l" where
  "CompositeTarget_execute call self ctx args st =
     (case objs (fst st) self of
        None \<Rightarrow> (Inl AttributeError, st)
      | Some t \<Rightarrow>
          (case kind t of
             Some (CompositeTarget cs) \<Rightarrow> execute_children call cs ctx args st
           | _ \<Rightarrow> (Inl AttributeError, st)))"

text \<open>\<open>BuildSystemTarget.execute\<close>. The value the builder returns is dropped: the method has
  no \<open>return\<close>.\<close>

definition BuildSystemTarget_execute ::
  "('c, 'a, 'e) builder \<Rightarrow> ref \<Rightarrow> 'c \<Rightarrow> 'a \<Rightarrow> world \<times> ('c, 'a) bcall list \<Rightarrow>
   ('e exn + unit) \<times> world \<times> ('c, 'a) bcall list" where
  "BuildSystemTarget_execute builder self ctx args st =
     (case objs (fst st) self of
        None \<Rightarrow> (Inl AttributeError, st)
      | Some t \<Rightarrow>
          (case kind t of
             Some (BuildSystemTarget b) \<Rightarrow>
               (let bt = (if b \<noteq> [] \<or> scope t = LOCAL then b else ''all'');
                    c = (bt, ctx, scope t = GLOBAL, args)
                in (case builder (snd st) c of
                      Some e \<Rightarrow> (Inl (Raised e), (fst st, snd st @ [c]))
                    | None \<Rightarrow> (Inr (), (fst st, snd st @ [c]))))
           | _ \<Rightarrow> (Inl AttributeError, st)))"

text \<open>\<open>DelegatorTarget.execute\<close>. \<open>call\<close> is the method call \<open>self.delegate.execute\<close>. The
  \<open>finally\<close> clause runs whether the call returned or raised, and the result or the exception
  is passed on after it. \<open>self.delegate\<close> is assigned once, in the constructor, so its three
  reads give the same reference.\<close>

definition DelegatorTarget_execute ::
  "(ref \<Rightarrow> 'c \<Rightarrow> 'a \<Rightarrow> world \<times> 'l \<Rightarrow> ('e exn + 'v) \<times> world \<times> 'l) \<Rightarrow>
   ref \<Rightarrow> 'c \<Rightarrow> 'a \<Rightarrow> world \<times> 'l \<Rightarrow> ('e exn + 'v) \<times> world \<times> 'l" where
  "DelegatorTarget_execute call self ctx args st =
     (case objs (fst st) self of
        None \<Rightarrow> (Inl AttributeError, st)
      | Some t \<Rightarrow>
          (case kind t of
             Some (DelegatorTarget D) \<Rightarrow>
               (case objs (fst st) D of
                  None \<Rightarrow> (Inl AttributeError, st)
                | Some tD \<Rightarrow>
                    (let old_scope = scope tD;
                         (return_value, st') =
                            call D ctx args (set_scope D (scope t) (fst st), snd st)
                     in (return_value, (set_scope D old_scope (fst st'), snd st'))))
           | _ \<Rightarrow> (Inl AttributeError, st)))"

text \<open>The method call \<open>self.execute(builder, context, args)\<close>: the class of \<open>self\<close> selects
  the method. The first argument after the builder is the number of nested calls of
  \<open>execute\<close> the interpreter still allows; a call beyond it raises \<open>RecursionError\<close>.\<close>

primrec execute ::
  "('c, 'a, 'e) builder \<Rightarrow> nat \<Rightarrow> ref \<Rightarrow> 'c \<Rightarrow> 'a \<Rightarrow> world \<times> ('c, 'a) bcall list \<Rightarrow>
   ('e exn + unit) \<times> world \<times> ('c, 'a) bcall list" where
  "execute builder 0 = (\<lambda>self ctx args st. (Inl RecursionError, st))"
| "execute builder (Suc n) = (\<lambda>self ctx args st.
     (case objs (fst st) self of
        None \<Rightarrow> (Inl AttributeError, st)
      | Some t \<Rightarrow>
          (case kind t of
             None \<Rightarrow> (Inl AttributeError, st)
           | Some (CompositeTarget cs) \<Rightarrow>
               CompositeTarget_execute (execute builder n) self ctx args st
           | Some (BuildSystemTarget b) \<Rightarrow>
               BuildSystemTarget_execute builder self ctx args st
           | Some (DelegatorTarget D) \<Rightarrow>
               DelegatorTarget_execute (execute builder n) self ctx args st)))"

section \<open>Notions used in the statements\<close>

text \<open>The object \<open>Target.__init__\<close> leaves behind, given the value of the subclass
  attribute.\<close>

abbreviation attrs ::
  "string \<Rightarrow> string \<Rightarrow> TargetScope \<Rightarrow> BuildType option \<Rightarrow> string set option \<Rightarrow>
   kind option \<Rightarrow> target" where
  "attrs m d s bt fl k \<equiv>
     \<lparr>mnemonic = m, desc = d,
      build_type = (case bt of Some b \<Rightarrow> b | None \<Rightarrow> BUILD_NORMAL),
      flags = (case fl of Some F \<Rightarrow> F | None \<Rightarrow> {}),
      scope = s, kind = k\<rparr>"

text \<open>The flag set the global delegator of a \<open>BOTH\<close> target is constructed with.\<close>

abbreviation global_flags :: "string set option \<Rightarrow> string set" where
  "global_flags fl \<equiv>
     (case fl of None \<Rightarrow> {''-all''} | Some F \<Rightarrow> if F \<noteq> {} then {''-all''} \<union> F else {''-all''})"

text \<open>The three constructors have one shape: allocate, \<open>Target.__init__\<close>, assign the
  subclass attribute. \<open>construct\<close> is that shape, with the attribute as a parameter.\<close>

definition construct ::
  "kind \<Rightarrow> string \<Rightarrow> string \<Rightarrow> TargetScope \<Rightarrow> BuildType option \<Rightarrow> string set option \<Rightarrow>
   world \<Rightarrow> ref \<times> world" where
  "construct k m d s bt fl w =
     (let self = fresh w;
          w0 = w\<lparr>fresh := Suc self\<rparr>;
          w1 = Target_init self m d s bt fl w0
      in (self, set_kind self k w1))"

text \<open>The object a constructor returns, read from the world it returns.\<close>

definition constructed :: "ref \<times> world \<Rightarrow> target option" where
  "constructed rw = objs (snd rw) (fst rw)"

text \<open>One construction, and the worlds that constructions lead to from the empty one.
  Executions are left out of \<open>step\<close>: they return the world they were started in (lemma
  \<open>execute_world\<close>).\<close>

inductive step :: "world \<Rightarrow> world \<Rightarrow> bool" where
  composite: "step w (snd (new_CompositeTarget cs m d s bt fl w))"
| build_system: "step w (snd (new_BuildSystemTarget b m d s bt fl w))"
| delegator: "step w (snd (new_DelegatorTarget dlg m d s bt fl w))"

inductive reachable :: "world \<Rightarrow> bool" where
  reach_init: "reachable init"
| reach_step: "reachable w \<Longrightarrow> step w w' \<Longrightarrow> reachable w'"

text \<open>Every reference of the registry has been allocated.\<close>

definition allocated :: "world \<Rightarrow> bool" where
  "allocated w = list_all (\<lambda>r. r < fresh w) (ALL_TARGETS w)"


text \<open>The identity of a registered target: its mnemonic and its flag set.\<close>

definition identity :: "world \<Rightarrow> ref \<Rightarrow> (string \<times> string set) option" where
  "identity w r = map_option (\<lambda>t. (mnemonic t, flags t)) (objs w r)"


section \<open>Example worlds\<close>

text \<open>A builder that raises on the sub-target \<open>b\<close> and returns on every other one.\<close>

definition fails_on_b :: "(string, unit, unit) builder" where
  "fails_on_b log c = (if fst c = ''b'' then Some () else None)"

text \<open>A local build-system target, and a global delegator to it.\<close>

definition local_world :: world where
  "local_world = snd (new_DelegatorTarget 0 ''build'' ''Build all'' GLOBAL None (Some {''all''})
      (snd (new_BuildSystemTarget ''b'' ''build'' ''Build'' LOCAL None None init)))"


text \<open>One global build-system target with the empty sub-target name.\<close>

definition global_world :: world where
  "global_world = snd (new_BuildSystemTarget [] ''build'' ''Build'' GLOBAL None None init)"

text \<open>A build-system target of scope \<open>BOTH\<close> with the flag \<open>unit\<close>.\<close>

definition both_world :: world where
  "both_world = snd (new_BuildSystemTarget [] ''build'' ''Build'' BOTH None (Some {''unit''}) init)"

text \<open>Two build-system targets with the same mnemonic and no flags.\<close>

definition twice_world :: world where
  "twice_world = snd (new_BuildSystemTarget ''b'' ''build'' ''Build again'' LOCAL None None
      (snd (new_BuildSystemTarget [] ''build'' ''Build'' LOCAL None None init)))"

section \<open>The display string\<close>

lemma str_join_nonempty:
  "str_join sep (map (\<lambda>flag. ''--'' @ flag) (f # fs)) \<noteq> []"
  by (cases fs) simp_all

lemma str_join_concat:
  "'' '' @ str_join '' '' (map (\<lambda>flag. ''--'' @ flag) (f # fs)) =
   concat (map (\<lambda>flag. '' --'' @ flag) (f # fs))"
proof (induction fs arbitrary: f)
  case Nil
  show ?case by simp
next
  case (Cons g gs)
  from Cons [of g] show ?case by simp
qed

lemma config_string_concat:
  "config_string m fs = m @ concat (map (\<lambda>flag. '' --'' @ flag) fs)"
proof (cases fs)
  case Nil
  then show ?thesis by (simp add: config_string_def)
next
  case (Cons f gs)
  have "config_string m (f # gs) =
        m @ '' '' @ str_join '' '' (map (\<lambda>flag. ''--'' @ flag) (f # gs))"
    unfolding config_string_def Let_def using str_join_nonempty [of "'' ''" f gs]
    by (simp only: if_False)
  with Cons show ?thesis by (simp only: str_join_concat)
qed

lemma singleton_iteration:
  assumes "set xs = {x}" "distinct xs"
  shows "xs = [x]"
proof -
  from assms have "length xs = 1"
    using distinct_card [of xs] by simp
  then obtain y where "xs = [y]"
    by (cases xs) auto
  with assms show ?thesis by simp
qed

text \<open>
  C9. The display string of a target is its mnemonic followed by \<open>" --flag"\<close> for each flag
  of its flag set, in the order the set is iterated. A target with mnemonic \<open>"build"\<close> and
  flags \<open>{"jobs"}\<close> renders as \<open>"build --jobs"\<close>, whatever the iteration, provided it yields
  the elements of the set once each; a target whose flag set is empty renders as its
  mnemonic alone, with no trailing space. The same holds of \<open>config_string\<close> on its own.
\<close>

theorem display_string:
  "Target_str it t = mnemonic t @ concat (map (\<lambda>flag. '' --'' @ flag) (it (flags t)))
   \<and> (mnemonic t = ''build'' \<and> flags t = {''jobs''} \<and> set (it (flags t)) = flags t
        \<and> distinct (it (flags t)) \<longrightarrow> Target_str it t = ''build --jobs'')
   \<and> (flags t = {} \<and> set (it (flags t)) = flags t \<longrightarrow> Target_str it t = mnemonic t)
   \<and> config_string ''build'' [''jobs''] = ''build --jobs''
   \<and> config_string m [] = m"
proof -
  have general: "Target_str it t = mnemonic t @ concat (map (\<lambda>flag. '' --'' @ flag) (it (flags t)))"
    by (simp only: Target_str_def config_string_concat)
  have jobs: "Target_str it t = ''build --jobs''"
    if "mnemonic t = ''build''" "flags t = {''jobs''}" "set (it (flags t)) = flags t"
       "distinct (it (flags t))"
  proof -
    from that have "it (flags t) = [''jobs'']"
      by (simp add: singleton_iteration)
    with that(1) show ?thesis by (simp add: general)
  qed
  have none: "Target_str it t = mnemonic t" if "flags t = {}" "set (it (flags t)) = flags t"
    using that by (simp add: general)
  have c1: "config_string ''build'' [''jobs''] = ''build --jobs''"
    by (simp add: config_string_concat)
  have c2: "config_string m [] = m"
    by (simp add: config_string_concat)
  from general jobs none c1 c2 show ?thesis by blast
qed

theorem display_string_witness:
  "Target_str (\<lambda>F. if F = {} then [] else [''jobs''])
     \<lparr>mnemonic = ''build'', desc = ''Build it'', build_type = BUILD_NORMAL,
      flags = {''jobs''}, scope = LOCAL, kind = Some (BuildSystemTarget '''')\<rparr> = ''build --jobs''
   \<and> Target_str (\<lambda>F. if F = {} then [] else [''jobs''])
     \<lparr>mnemonic = ''build'', desc = ''Build it'', build_type = BUILD_NORMAL,
      flags = {}, scope = LOCAL, kind = Some (BuildSystemTarget '''')\<rparr> = ''build''"
  using display_string [of "\<lambda>F. if F = {} then [] else [''jobs'']"
     "\<lparr>mnemonic = ''build'', desc = ''Build it'', build_type = BUILD_NORMAL,
      flags = {''jobs''}, scope = LOCAL, kind = Some (BuildSystemTarget '''')\<rparr>"]
    display_string [of "\<lambda>F. if F = {} then [] else [''jobs'']"
     "\<lparr>mnemonic = ''build'', desc = ''Build it'', build_type = BUILD_NORMAL,
      flags = {}, scope = LOCAL, kind = Some (BuildSystemTarget '''')\<rparr>"]
  by simp

section \<open>The constructors, unfolded\<close>

lemma Target_init_direct:
  "s \<noteq> BOTH \<Longrightarrow>
   Target_init self m d s bt fl w =
     w\<lparr>objs := (objs w)(self \<mapsto> attrs m d s bt fl None),
       ALL_TARGETS := ALL_TARGETS w @ [self]\<rparr>"
  by (simp add: Target_init.simps)

lemma new_DelegatorTarget_direct:
  "s \<noteq> BOTH \<Longrightarrow>
   new_DelegatorTarget dlg m d s bt fl w =
     (fresh w,
      w\<lparr>objs := (objs w)(fresh w \<mapsto> attrs m d s bt fl (Some (DelegatorTarget dlg))),
        fresh := Suc (fresh w),
        ALL_TARGETS := ALL_TARGETS w @ [fresh w]\<rparr>)"
  by (simp add: new_DelegatorTarget.simps Target_init_direct set_kind_def Let_def)

lemma Target_init_both:
  "Target_init self m d BOTH bt fl w =
     w\<lparr>objs := (objs w)(self \<mapsto> attrs m d BOTH bt fl None,
                fresh w \<mapsto> attrs m d LOCAL bt fl (Some (DelegatorTarget self)),
                Suc (fresh w) \<mapsto> attrs m d GLOBAL bt (Some (global_flags fl))
                                   (Some (DelegatorTarget self))),
       fresh := Suc (Suc (fresh w)),
       ALL_TARGETS := ALL_TARGETS w @ [fresh w, Suc (fresh w)]\<rparr>"
  by (simp add: Target_init.simps [of _ _ _ BOTH] new_DelegatorTarget_direct Let_def split: option.splits)

lemma construct_direct:
  "s \<noteq> BOTH \<Longrightarrow>
   construct k m d s bt fl w =
     (fresh w,
      w\<lparr>objs := (objs w)(fresh w \<mapsto> attrs m d s bt fl (Some k)),
        fresh := Suc (fresh w),
        ALL_TARGETS := ALL_TARGETS w @ [fresh w]\<rparr>)"
  by (simp add: construct_def Target_init_direct set_kind_def Let_def)

lemma construct_both:
  "construct k m d BOTH bt fl w =
     (fresh w,
      w\<lparr>objs := (objs w)(fresh w \<mapsto> attrs m d BOTH bt fl (Some k),
                Suc (fresh w) \<mapsto> attrs m d LOCAL bt fl (Some (DelegatorTarget (fresh w))),
                Suc (Suc (fresh w)) \<mapsto> attrs m d GLOBAL bt (Some (global_flags fl))
                                   (Some (DelegatorTarget (fresh w)))),
        fresh := Suc (Suc (Suc (fresh w))),
        ALL_TARGETS := ALL_TARGETS w @ [Suc (fresh w), Suc (Suc (fresh w))]\<rparr>)"
  by (simp add: construct_def Target_init_both set_kind_def Let_def fun_upd_twist)

lemma new_CompositeTarget_construct:
  "new_CompositeTarget cs = construct (CompositeTarget cs)"
  by (intro ext) (simp add: new_CompositeTarget_def construct_def)

lemma new_BuildSystemTarget_construct:
  "new_BuildSystemTarget b = construct (BuildSystemTarget b)"
  by (intro ext) (simp add: new_BuildSystemTarget_def construct_def)

lemma new_DelegatorTarget_construct:
  "new_DelegatorTarget dlg = construct (DelegatorTarget dlg)"
  by (intro ext) (simp add: new_DelegatorTarget.simps construct_def)

lemma local_world_eq:
  "local_world =
     \<lparr>objs = [0 \<mapsto> attrs ''build'' ''Build'' LOCAL None None (Some (BuildSystemTarget ''b'')),
              Suc 0 \<mapsto> attrs ''build'' ''Build all'' GLOBAL None (Some {''all''})
                        (Some (DelegatorTarget 0))],
      fresh = Suc (Suc 0), ALL_TARGETS = [0, Suc 0]\<rparr>"
  by (simp add: local_world_def new_BuildSystemTarget_construct new_DelegatorTarget_construct
      construct_direct init_def)


lemma global_world_eq:
  "global_world =
     \<lparr>objs = [0 \<mapsto> attrs ''build'' ''Build'' GLOBAL None None (Some (BuildSystemTarget []))],
      fresh = Suc 0, ALL_TARGETS = [0]\<rparr>"
  by (simp add: global_world_def new_BuildSystemTarget_construct construct_direct init_def)


section \<open>Execution leaves the world as it found it\<close>

lemma set_scope_restore:
  "objs w D = Some tD \<Longrightarrow> set_scope D (scope tD) (set_scope D s w) = w"
  by (simp add: set_scope_def map_upd_triv)

lemma set_scope_reads:
  "objs w D = Some tD \<Longrightarrow> objs (set_scope D s w) D = Some (tD\<lparr>scope := s\<rparr>)"
  by (simp add: set_scope_def)

lemma execute_children_world:
  assumes "\<And>r st. fst (snd (call r ctx args st)) = fst st"
  shows "fst (snd (execute_children call cs ctx args st)) = fst st"
proof (induction cs arbitrary: st)
  case Nil
  show ?case by simp
next
  case (Cons c cs)
  obtain res st' where c: "call c ctx args st = (res, st')"
    by (cases "call c ctx args st")
  with assms [of c st] have "fst st' = fst st" by simp
  with c Cons [of st'] show ?case
    by (cases res) simp_all
qed

lemma BuildSystemTarget_execute_world:
  "fst (snd (BuildSystemTarget_execute builder self ctx args st)) = fst st"
  by (simp add: BuildSystemTarget_execute_def Let_def split: option.splits kind.splits)

lemma DelegatorTarget_execute_world:
  assumes "\<And>r st. fst (snd (call r ctx args st)) = fst st"
  shows "fst (snd (DelegatorTarget_execute call self ctx args st)) = fst st"
proof -
  have "fst (snd (let (return_value, st') = call D ctx args (set_scope D s (fst st), snd st)
         in (return_value, (set_scope D (scope tD) (fst st'), snd st')))) = fst st"
    if "objs (fst st) D = Some tD" for D s tD
  proof -
    obtain res st' where c: "call D ctx args (set_scope D s (fst st), snd st) = (res, st')"
      by (cases "call D ctx args (set_scope D s (fst st), snd st)")
    with assms [of D "(set_scope D s (fst st), snd st)"]
    have "fst st' = set_scope D s (fst st)" by simp
    with c that show ?thesis by (simp add: set_scope_restore)
  qed
  then show ?thesis
    by (simp add: DelegatorTarget_execute_def split: option.splits kind.splits)
qed

lemma execute_world:
  "fst (snd (execute builder n self ctx args st)) = fst st"
proof (induction n arbitrary: self st)
  case 0
  show ?case by simp
next
  case (Suc n)
  show ?case
    by (simp add: Suc CompositeTarget_execute_def execute_children_world
        BuildSystemTarget_execute_world DelegatorTarget_execute_world
        split: option.splits kind.splits)
qed


section \<open>CompositeTarget\<close>






section \<open>BuildSystemTarget\<close>

text \<open>
  C4. Executing a build-system target calls \<open>execute_build_target\<close> of the builder exactly
  once: the list of calls grows by one entry. Its sub-target name is \<open>build_target\<close> when
  that is not empty, the empty string when it is empty and the scope is \<open>LOCAL\<close>, and
  \<open>"all"\<close> when it is empty and the scope is \<open>GLOBAL\<close>; its third argument is
  \<open>scope = GLOBAL\<close>; context and arguments are passed on. The outcome is the builder's: its
  exception, or a plain return.
\<close>

theorem build_system_call:
  assumes "objs w r = Some t" and "kind t = Some (BuildSystemTarget b)"
  shows "\<exists>nm res.
           execute builder (Suc n) r ctx args (w, log) =
             (res, (w, log @ [(nm, ctx, scope t = GLOBAL, args)])) \<and>
           (b \<noteq> [] \<longrightarrow> nm = b) \<and>
           (b = [] \<and> scope t = LOCAL \<longrightarrow> nm = []) \<and>
           (b = [] \<and> scope t = GLOBAL \<longrightarrow> nm = ''all'') \<and>
           res = (case builder log (nm, ctx, scope t = GLOBAL, args) of
                    Some e \<Rightarrow> Inl (Raised e)
                  | None \<Rightarrow> Inr ())"
  using assms
  by (auto simp: BuildSystemTarget_execute_def Let_def split: option.splits)

theorem build_system_call_witness:
  "execute fails_on_b (Suc 0) 0 ''X'' () (global_world, []) =
     (Inr (), (global_world, [(''all'', ''X'', True, ())]))"
proof -
  have h1: "objs global_world 0 =
      Some (attrs ''build'' ''Build'' GLOBAL None None (Some (BuildSystemTarget [])))"
    by (simp add: global_world_eq)
  have h2: "kind (attrs ''build'' ''Build'' GLOBAL None None (Some (BuildSystemTarget []))) =
      Some (BuildSystemTarget [])"
    by simp
  from build_system_call [OF h1 h2, of fails_on_b 0 "''X''" "()" "[]"]
  show ?thesis by (auto simp: fails_on_b_def)
qed


section \<open>DelegatorTarget\<close>

text \<open>
  C3. Let \<open>d\<close> be a delegator with delegate \<open>D\<close>. Its \<open>execute\<close> calls \<open>D.execute\<close> with the
  same context and arguments in a world where \<open>D.scope\<close> is \<open>d.scope\<close>; whatever that call
  gives, result or exception, is what the delegator gives, after \<open>D.scope\<close> has been set
  back to the value it had before. This holds for any method \<open>call\<close> standing for
  \<open>D.execute\<close> that leaves \<open>D\<close> among the objects; for the methods of this module, the
  whole world after the call is the world before it.
\<close>

theorem delegator_scope_restored:
  assumes "objs w d = Some t" and "kind t = Some (DelegatorTarget D)"
    and "objs w D = Some tD"
    and "call D ctx args (set_scope D (scope t) w, l) = (res, (w2, l2))"
    and "objs w2 D = Some t2"
  shows "map_option scope (objs (set_scope D (scope t) w) D) = Some (scope t)
       \<and> DelegatorTarget_execute call d ctx args (w, l) = (res, (set_scope D (scope tD) w2, l2))
       \<and> map_option scope (objs (set_scope D (scope tD) w2) D) = Some (scope tD)
       \<and> execute builder (Suc n) d ctx args (w, log) =
           (fst (execute builder n D ctx args (set_scope D (scope t) w, log)),
            (w, snd (snd (execute builder n D ctx args (set_scope D (scope t) w, log)))))"
proof -
  have a: "map_option scope (objs (set_scope D (scope t) w) D) = Some (scope t)"
    using assms(3) by (simp add: set_scope_reads)
  have b: "DelegatorTarget_execute call d ctx args (w, l) =
             (res, (set_scope D (scope tD) w2, l2))"
    using assms(1-4) by (simp add: DelegatorTarget_execute_def)
  have c: "map_option scope (objs (set_scope D (scope tD) w2) D) = Some (scope tD)"
    using assms(5) by (simp add: set_scope_reads)
  obtain r' w' l' where e: "execute builder n D ctx args (set_scope D (scope t) w, log) =
      (r', (w', l'))"
    by (cases "execute builder n D ctx args (set_scope D (scope t) w, log)") auto
  with execute_world [of builder n D ctx args "(set_scope D (scope t) w, log)"]
  have "w' = set_scope D (scope t) w" by simp
  with e assms(1-3) have d: "execute builder (Suc n) d ctx args (w, log) =
           (fst (execute builder n D ctx args (set_scope D (scope t) w, log)),
            (w, snd (snd (execute builder n D ctx args (set_scope D (scope t) w, log)))))"
    by (simp add: DelegatorTarget_execute_def set_scope_restore)
  from a b c d show ?thesis by blast
qed

theorem delegator_scope_restored_witness:
  "execute fails_on_b (Suc (Suc 0)) (Suc 0) ''X'' () (local_world, []) =
     (Inl (Raised ()), (local_world, [(''b'', ''X'', True, ())]))
   \<and> map_option scope (objs local_world 0) = Some LOCAL"
proof -
  let ?t = "attrs ''build'' ''Build all'' GLOBAL None (Some {''all''}) (Some (DelegatorTarget 0))"
  let ?tD = "attrs ''build'' ''Build'' LOCAL None None (Some (BuildSystemTarget ''b''))"
  have h1: "objs local_world (Suc 0) = Some ?t"
    by (simp add: local_world_eq)
  have h2: "kind ?t = Some (DelegatorTarget 0)"
    by simp
  have h3: "objs local_world 0 = Some ?tD"
    by (simp add: local_world_eq)
  have h4: "execute fails_on_b (Suc 0) 0 ''X'' () (set_scope 0 (scope ?t) local_world, []) =
            (Inl (Raised ()), (set_scope 0 GLOBAL local_world, [(''b'', ''X'', True, ())]))"
    by (simp add: local_world_eq set_scope_def BuildSystemTarget_execute_def fails_on_b_def
        Let_def)
  have h5: "objs (set_scope 0 GLOBAL local_world) 0 = Some (?tD\<lparr>scope := GLOBAL\<rparr>)"
    by (simp add: local_world_eq set_scope_def)
  from delegator_scope_restored [where call = "execute fails_on_b (Suc 0)" and d = "Suc 0"
      and D = 0 and builder = fails_on_b and n = "Suc 0" and log = "[]",
      OF h1 h2 h3 h4 h5] h3 h4
  show ?thesis by simp
qed


section \<open>Lookup\<close>

lemma filter_unique_index:
  assumes "i < length xs" and "P (xs ! i)" and "\<forall>j<length xs. P (xs ! j) \<longrightarrow> j = i"
  shows "filter P xs = [xs ! i]"
proof -
  have eq: "{k. k < length xs \<and> P (xs ! k)} = {i}"
    using assms by blast
  have "length (filter P xs) = card {k. k < length xs \<and> P (xs ! k)}"
    by (rule length_filter_conv_card)
  also have "\<dots> = card {i}"
    by (rule arg_cong [OF eq])
  also have "\<dots> = 1" by simp
  finally obtain y where y: "filter P xs = [y]"
    by (cases "filter P xs") simp_all
  then have "y \<in> set (filter P xs)" by simp
  then have "y \<in> set xs" and "P y" by simp_all
  from \<open>y \<in> set xs\<close> obtain j where j: "j < length xs" "xs ! j = y"
    unfolding in_set_conv_nth by blast
  with \<open>P y\<close> assms(3) have "j = i" by blast
  with j y show ?thesis by simp
qed

lemma filter_two_indices:
  assumes "i < j" and "j < length xs" and "P (xs ! i)" and "P (xs ! j)"
  shows "2 \<le> length (filter P xs)"
proof -
  have "{i, j} \<subseteq> {k. k < length xs \<and> P (xs ! k)}"
    using assms by auto
  then have "card {i, j} \<le> card {k. k < length xs \<and> P (xs ! k)}"
    by (intro card_mono) auto
  with assms(1) show ?thesis
    by (simp add: length_filter_conv_card)
qed

lemma filter_distinct_image:
  assumes "distinct (map f xs)"
  shows "length (filter (\<lambda>x. f x = c) xs) \<le> 1"
proof -
  let ?A = "{i. i < length xs \<and> f (xs ! i) = c}"
  have "i = j" if "i \<in> ?A" "j \<in> ?A" for i j
  proof -
    from that have "i < length (map f xs)" "j < length (map f xs)"
      "map f xs ! i = map f xs ! j"
      by simp_all
    with assms show ?thesis
      by (simp only: nth_eq_iff_index_eq)
  qed
  then have "\<forall>i\<in>?A. \<forall>j\<in>?A. i = j" by blast
  moreover have "finite ?A" by simp
  ultimately have "card ?A \<le> Suc 0"
    by (simp only: card_le_Suc0_iff_eq)
  then show ?thesis
    by (simp only: length_filter_conv_card One_nat_def)
qed

lemma matches_iff:
  "matches w m F r \<longleftrightarrow> (\<exists>t. objs w r = Some t \<and> mnemonic t = m \<and> flags t = F)"
  by (auto simp: matches_def split: option.splits)

lemma matches_identity: "matches w m F r \<longleftrightarrow> identity w r = Some (m, F)"
  by (auto simp: matches_def identity_def split: option.splits)


text \<open>
  C2. A registered target matches \<open>(m, F)\<close> when its mnemonic is \<open>m\<close> and its flag set is
  equal to \<open>F\<close>. If exactly one entry of the registry matches, \<open>get_target\<close> returns it. If
  none matches, \<open>get_target\<close> raises \<open>NoSuchTargetException\<close> with the message
  \<open>Could not find target '...'\<close> around the display string of \<open>(m, F)\<close>.
\<close>

theorem lookup:
  "(matches w m F r \<longleftrightarrow> (\<exists>t. objs w r = Some t \<and> mnemonic t = m \<and> flags t = F))
   \<and> (i < length (get_all_targets w) \<and> matches w m F (get_all_targets w ! i) \<and>
       (\<forall>j<length (get_all_targets w). matches w m F (get_all_targets w ! j) \<longrightarrow> j = i)
       \<longrightarrow> get_target it m F w = Inr (get_all_targets w ! i))
   \<and> ((\<forall>r\<in>set (get_all_targets w). \<not> matches w m F r)
       \<longrightarrow> get_target it m F w =
            Inl (NoSuchTargetException
                  (''Could not find target '' @ [CHR 0x27] @ config_string m (it F) @ [CHR 0x27])))"
proof -
  have one: "get_target it m F w = Inr (get_all_targets w ! i)"
    if "i < length (get_all_targets w)" "matches w m F (get_all_targets w ! i)"
       "\<forall>j<length (get_all_targets w). matches w m F (get_all_targets w ! j) \<longrightarrow> j = i"
    using filter_unique_index [OF that] by (simp add: get_target_def)
  have none: "get_target it m F w =
            Inl (NoSuchTargetException
                  (''Could not find target '' @ [CHR 0x27] @ config_string m (it F) @ [CHR 0x27]))"
    if "\<forall>r\<in>set (get_all_targets w). \<not> matches w m F r"
  proof -
    from that have "filter (matches w m F) (get_all_targets w) = []"
      by (simp add: filter_empty_conv)
    then show ?thesis by (simp add: get_target_def)
  qed
  from one none matches_iff [of w m F r] show ?thesis by blast
qed

theorem lookup_witness:
  "get_target (\<lambda>F. [''all'']) ''build'' {''all''} local_world = (Inr (Suc 0) :: unit exn + ref)
   \<and> get_target (\<lambda>F. [''all'']) ''test'' {''all''} local_world =
       (Inl (NoSuchTargetException (''Could not find target '' @ [CHR 0x27] @ ''test --all'' @ [CHR 0x27]))
          :: unit exn + ref)"
proof -
  have regs: "get_all_targets local_world = [0, Suc 0]"
    by (simp add: get_all_targets_def local_world_eq)
  have m0: "\<not> matches local_world ''build'' {''all''} 0"
    by (simp add: matches_def local_world_eq)
  have m1: "matches local_world ''build'' {''all''} (Suc 0)"
    by (simp add: matches_def local_world_eq)
  have t0: "\<not> matches local_world ''test'' {''all''} 0"
    by (simp add: matches_def local_world_eq)
  have t1: "\<not> matches local_world ''test'' {''all''} (Suc 0)"
    by (simp add: matches_def local_world_eq)
  have one: "Suc 0 < length (get_all_targets local_world) \<and>
       matches local_world ''build'' {''all''} (get_all_targets local_world ! Suc 0) \<and>
       (\<forall>j<length (get_all_targets local_world).
           matches local_world ''build'' {''all''} (get_all_targets local_world ! j) \<longrightarrow> j = Suc 0)"
    using m0 m1 by (simp add: regs All_less_Suc)
  have none: "\<forall>r\<in>set (get_all_targets local_world). \<not> matches local_world ''test'' {''all''} r"
    using t0 t1 by (simp add: regs)
  from lookup [of local_world "''build''" "{''all''}" 0 "Suc 0" "\<lambda>F. [''all'']",
      THEN conjunct2, THEN conjunct1, THEN mp, OF one]
  have a: "get_target (\<lambda>F. [''all'']) ''build'' {''all''} local_world = Inr (Suc 0)"
    by (simp only: regs nth_Cons_Suc nth_Cons_0)
  from lookup [of local_world "''test''" "{''all''}" 0 0 "\<lambda>F. [''all'']",
      THEN conjunct2, THEN conjunct2, THEN mp, OF none]
  have b: "get_target (\<lambda>F. [''all'']) ''test'' {''all''} local_world =
       Inl (NoSuchTargetException (''Could not find target '' @ [CHR 0x27] @ ''test --all'' @ [CHR 0x27]))"
    by (simp add: config_string_concat)
  from a b show ?thesis by simp
qed

lemma both_world_eq:
  "both_world =
     \<lparr>objs = [0 \<mapsto> attrs ''build'' ''Build'' BOTH None (Some {''unit''})
                        (Some (BuildSystemTarget [])),
              Suc 0 \<mapsto> attrs ''build'' ''Build'' LOCAL None (Some {''unit''})
                        (Some (DelegatorTarget 0)),
              Suc (Suc 0) \<mapsto> attrs ''build'' ''Build'' GLOBAL None (Some {''unit'', ''-all''})
                        (Some (DelegatorTarget 0))],
      fresh = Suc (Suc (Suc 0)), ALL_TARGETS = [Suc 0, Suc (Suc 0)]\<rparr>"
  by (simp add: both_world_def new_BuildSystemTarget_construct construct_both init_def)

lemma twice_world_eq:
  "twice_world =
     \<lparr>objs = [0 \<mapsto> attrs ''build'' ''Build'' LOCAL None None (Some (BuildSystemTarget [])),
              Suc 0 \<mapsto> attrs ''build'' ''Build again'' LOCAL None None
                        (Some (BuildSystemTarget ''b''))],
      fresh = Suc (Suc 0), ALL_TARGETS = [0, Suc 0]\<rparr>"
  by (simp add: twice_world_def new_BuildSystemTarget_construct construct_direct init_def)

text \<open>
  C6. Construction does not reject a duplicate: two targets constructed one after the other
  with the same mnemonic and flags, neither of scope \<open>BOTH\<close>, are both appended to the
  registry and have the same identity (this holds of \<open>construct\<close>, of which each of the
  three constructors is an instance). The duplicate shows at lookup: when two entries of
  the registry match, \<open>get_target\<close> fails its \<open>assert\<close> with \<open>AssertionError\<close>, not with
  \<open>NoSuchTargetException\<close>. When the identities of the registered targets are pairwise
  distinct, no lookup ends in \<open>AssertionError\<close>.
\<close>

theorem duplicates_found_at_lookup:
  "(s \<noteq> BOTH \<and> s' \<noteq> BOTH \<and>
      w2 = snd (construct k' m d' s' bt' fl (snd (construct k m d s bt fl w)))
    \<longrightarrow> get_all_targets w2 = get_all_targets w @ [fresh w, Suc (fresh w)]
        \<and> identity w2 (fresh w) = Some (m, case fl of Some F \<Rightarrow> F | None \<Rightarrow> {})
        \<and> identity w2 (Suc (fresh w)) = Some (m, case fl of Some F \<Rightarrow> F | None \<Rightarrow> {}))
   \<and> (i < j \<and> j < length (get_all_targets w) \<and> matches w m F (get_all_targets w ! i) \<and>
      matches w m F (get_all_targets w ! j)
      \<longrightarrow> get_target it m F w = Inl (AssertionError ''Conflicting targets specified in code''))
   \<and> (distinct (map (identity w) (get_all_targets w))
      \<longrightarrow> get_target it m F w \<noteq> Inl (AssertionError msg))"
proof -
  have a: "get_all_targets w2 = get_all_targets w @ [fresh w, Suc (fresh w)]
        \<and> identity w2 (fresh w) = Some (m, case fl of Some F \<Rightarrow> F | None \<Rightarrow> {})
        \<and> identity w2 (Suc (fresh w)) = Some (m, case fl of Some F \<Rightarrow> F | None \<Rightarrow> {})"
    if "s \<noteq> BOTH" "s' \<noteq> BOTH"
       "w2 = snd (construct k' m d' s' bt' fl (snd (construct k m d s bt fl w)))"
    using that by (simp add: construct_direct get_all_targets_def identity_def)
  have b: "get_target it m F w = Inl (AssertionError ''Conflicting targets specified in code'')"
    if "i < j" "j < length (get_all_targets w)" "matches w m F (get_all_targets w ! i)"
       "matches w m F (get_all_targets w ! j)"
  proof -
    from filter_two_indices [OF that]
    have "2 \<le> length (filter (matches w m F) (get_all_targets w))" .
    then have "filter (matches w m F) (get_all_targets w) \<noteq> []"
      "length (filter (matches w m F) (get_all_targets w)) \<noteq> 1"
      by auto
    then show ?thesis by (simp add: get_target_def)
  qed
  have c: "get_target it m F w \<noteq> Inl (AssertionError msg)"
    if "distinct (map (identity w) (get_all_targets w))"
  proof -
    have "matches w m F = (\<lambda>r. identity w r = Some (m, F))"
      by (intro ext) (simp add: matches_identity)
    with filter_distinct_image [OF that, of "Some (m, F)"]
    have len: "length (filter (matches w m F) (get_all_targets w)) \<le> 1" by simp
    show ?thesis
    proof (cases "filter (matches w m F) (get_all_targets w) = []")
      case True
      then show ?thesis by (simp add: get_target_def)
    next
      case False
      then have "length (filter (matches w m F) (get_all_targets w)) \<noteq> 0" by simp
      with len have "length (filter (matches w m F) (get_all_targets w)) = 1" by arith
      with False show ?thesis by (simp add: get_target_def)
    qed
  qed
  from a b c show ?thesis by blast
qed

theorem duplicates_found_at_lookup_witness:
  "get_all_targets twice_world = [0, Suc 0]
   \<and> get_target (\<lambda>F. []) ''build'' {} twice_world =
       (Inl (AssertionError ''Conflicting targets specified in code'') :: unit exn + ref)
   \<and> get_target (\<lambda>F. []) ''build'' {} local_world \<noteq>
       (Inl (AssertionError ''Conflicting targets specified in code'') :: unit exn + ref)"
proof -
  note dup = duplicates_found_at_lookup [where s = LOCAL and s' = LOCAL and w = init
      and ?w2.0 = twice_world and k = "BuildSystemTarget []" and k' = "BuildSystemTarget ''b''"
      and m = "''build''" and d = "''Build''" and d' = "''Build again''" and bt = None
      and bt' = None and fl = None]
  have h: "LOCAL \<noteq> BOTH \<and> LOCAL \<noteq> BOTH \<and>
      twice_world = snd (construct (BuildSystemTarget ''b'') ''build'' ''Build again'' LOCAL None None
        (snd (construct (BuildSystemTarget []) ''build'' ''Build'' LOCAL None None init)))"
    by (simp add: twice_world_def new_BuildSystemTarget_construct)
  have a: "get_all_targets twice_world = [0, Suc 0]"
    using dup [THEN conjunct1, THEN mp, OF h, THEN conjunct1]
    by (simp add: init_def get_all_targets_def)
  have regs: "get_all_targets twice_world = [0, Suc 0]"
    by (simp add: get_all_targets_def twice_world_eq)
  have m0: "matches twice_world ''build'' {} 0"
    by (simp add: matches_def twice_world_eq)
  have m1: "matches twice_world ''build'' {} (Suc 0)"
    by (simp add: matches_def twice_world_eq)
  have two: "0 < Suc 0 \<and> Suc 0 < length (get_all_targets twice_world) \<and>
      matches twice_world ''build'' {} (get_all_targets twice_world ! 0) \<and>
      matches twice_world ''build'' {} (get_all_targets twice_world ! Suc 0)"
    using m0 m1 by (simp add: regs)
  have b: "get_target (\<lambda>F. []) ''build'' {} twice_world =
       (Inl (AssertionError ''Conflicting targets specified in code'') :: unit exn + ref)"
    by (rule duplicates_found_at_lookup [where w = twice_world and i = 0 and j = "Suc 0",
          THEN conjunct2, THEN conjunct1, THEN mp, OF two])
  have dist: "distinct (map (identity local_world) (get_all_targets local_world))"
    by (simp add: get_all_targets_def local_world_eq identity_def)
  have c: "get_target (\<lambda>F. []) ''build'' {} local_world \<noteq>
       (Inl (AssertionError ''Conflicting targets specified in code'') :: unit exn + ref)"
    by (rule duplicates_found_at_lookup [where w = local_world,
          THEN conjunct2, THEN conjunct2, THEN mp, OF dist])
  from a b c show ?thesis by blast
qed

section \<open>The registry grows and keeps its flags\<close>

lemma step_construct:
  "step w w' \<longleftrightarrow> (\<exists>k m d s bt fl. w' = snd (construct k m d s bt fl w))"
proof
  assume "step w w'"
  then show "\<exists>k m d s bt fl. w' = snd (construct k m d s bt fl w)"
    by (cases rule: step.cases)
       (simp_all only: new_CompositeTarget_construct new_BuildSystemTarget_construct
          new_DelegatorTarget_construct, blast+)
next
  assume "\<exists>k m d s bt fl. w' = snd (construct k m d s bt fl w)"
  then obtain k m d s bt fl where w': "w' = snd (construct k m d s bt fl w)"
    by blast
  show "step w w'"
  proof (cases k)
    case (CompositeTarget cs)
    with w' step.composite [of w cs m d s bt fl] show ?thesis
      by (simp only: new_CompositeTarget_construct)
  next
    case (BuildSystemTarget b)
    with w' step.build_system [of w b m d s bt fl] show ?thesis
      by (simp only: new_BuildSystemTarget_construct)
  next
    case (DelegatorTarget dlg)
    with w' step.delegator [of w dlg m d s bt fl] show ?thesis
      by (simp only: new_DelegatorTarget_construct)
  qed
qed

lemma construct_registry:
  "\<exists>new. ALL_TARGETS (snd (construct k m d s bt fl w)) = ALL_TARGETS w @ new \<and>
         (\<forall>r\<in>set new. r < fresh (snd (construct k m d s bt fl w)))"
  by (cases "s = BOTH") (simp_all add: construct_direct construct_both)

lemma construct_fresh:
  "fresh w \<le> fresh (snd (construct k m d s bt fl w))"
  by (cases "s = BOTH") (simp_all add: construct_direct construct_both)

lemma construct_old:
  "r < fresh w \<Longrightarrow> objs (snd (construct k m d s bt fl w)) r = objs w r"
  by (cases "s = BOTH") (simp_all add: construct_direct construct_both)

lemma construct_allocated:
  assumes "allocated w"
  shows "allocated (snd (construct k m d s bt fl w))"
proof -
  obtain new where new: "ALL_TARGETS (snd (construct k m d s bt fl w)) = ALL_TARGETS w @ new"
    "\<forall>r\<in>set new. r < fresh (snd (construct k m d s bt fl w))"
    using construct_registry [of k m d s bt fl w] by blast
  from assms have "\<forall>r\<in>set (ALL_TARGETS w). r < fresh w"
    by (simp add: allocated_def list_all_iff)
  with construct_fresh [of w k m d s bt fl]
  have "\<forall>r\<in>set (ALL_TARGETS w). r < fresh (snd (construct k m d s bt fl w))"
    by (meson less_le_trans)
  with new show ?thesis
    by (simp add: allocated_def list_all_iff) blast
qed

lemma reachable_allocated: "reachable w \<Longrightarrow> allocated w"
proof (induction rule: reachable.induct)
  case reach_init
  show ?case by (simp add: allocated_def init_def)
next
  case (reach_step w w')
  then show ?case
    by (auto simp: step_construct construct_allocated)
qed

lemma foldl_union:
  "foldl (\<lambda>agg item. agg \<union> g item) A xs = A \<union> (\<Union>x\<in>set xs. g x)"
  by (induction xs arbitrary: A) auto

lemma all_flags_union:
  "get_all_possible_flags w = (\<Union>r\<in>set (get_all_targets w). flags_of w r)"
  by (simp add: get_all_possible_flags_def foldl_union)

lemma construct_flags_mono:
  assumes "allocated w"
  shows "get_all_possible_flags w \<subseteq> get_all_possible_flags (snd (construct k m d s bt fl w))"
proof
  fix f
  assume "f \<in> get_all_possible_flags w"
  then obtain r where r: "r \<in> set (ALL_TARGETS w)" "f \<in> flags_of w r"
    by (auto simp: all_flags_union get_all_targets_def)
  with assms have "r < fresh w"
    by (simp add: allocated_def list_all_iff)
  then have "flags_of (snd (construct k m d s bt fl w)) r = flags_of w r"
    by (simp add: flags_of_def construct_old)
  moreover from r(1) construct_registry [of k m d s bt fl w]
  have "r \<in> set (ALL_TARGETS (snd (construct k m d s bt fl w)))"
    by auto
  ultimately show "f \<in> get_all_possible_flags (snd (construct k m d s bt fl w))"
    using r(2) by (auto simp: all_flags_union get_all_targets_def)
qed

lemma construct_flags_new:
  "F \<subseteq> get_all_possible_flags (snd (construct k m d s bt (Some F) w))"
  by (cases "s = BOTH")
     (auto simp: construct_direct construct_both all_flags_union get_all_targets_def flags_of_def)

lemma reachable_global_world: "reachable global_world"
  unfolding global_world_def by (rule reach_step [OF reach_init step.build_system])

lemma reachable_local_world: "reachable local_world"
  unfolding local_world_def
  by (rule reach_step [OF reach_step [OF reach_init step.build_system] step.delegator])



text \<open>
  C8. \<open>get_all_possible_flags\<close> is the union of the flag sets of the registered targets. A
  construction only appends to the registry and the union after it contains the union
  before it; constructing a target with a flag set \<open>F\<close> that holds a flag outside the union
  makes the union strictly larger (for each of the three constructors, as instances of
  \<open>construct\<close>); an execution leaves the union as it was.
\<close>

theorem flag_union:
  "get_all_possible_flags w = (\<Union>r\<in>set (get_all_targets w). flags_of w r)
   \<and> (reachable w \<and> step w w'
       \<longrightarrow> (\<exists>new. get_all_targets w' = get_all_targets w @ new)
           \<and> get_all_possible_flags w \<subseteq> get_all_possible_flags w')
   \<and> (reachable w \<and> f \<in> F \<and> f \<notin> get_all_possible_flags w
       \<longrightarrow> get_all_possible_flags w
             \<subset> get_all_possible_flags (snd (construct k m d s bt (Some F) w)))
   \<and> get_all_possible_flags (fst (snd (execute builder n r ctx args (w, log)))) =
       get_all_possible_flags w"
proof -
  have a: "(\<exists>new. get_all_targets w' = get_all_targets w @ new)
           \<and> get_all_possible_flags w \<subseteq> get_all_possible_flags w'"
    if "reachable w" "step w w'"
  proof -
    from that(2) obtain k m d s bt fl where w': "w' = snd (construct k m d s bt fl w)"
      unfolding step_construct by blast
    from construct_registry [of k m d s bt fl w] w'
    have "\<exists>new. get_all_targets w' = get_all_targets w @ new"
      unfolding get_all_targets_def by blast
    moreover from construct_flags_mono [OF reachable_allocated [OF that(1)]] w'
    have "get_all_possible_flags w \<subseteq> get_all_possible_flags w'"
      by blast
    ultimately show ?thesis by blast
  qed
  have b: "get_all_possible_flags w
             \<subset> get_all_possible_flags (snd (construct k m d s bt (Some F) w))"
    if "reachable w" "f \<in> F" "f \<notin> get_all_possible_flags w"
  proof -
    from construct_flags_new [of F k m d s bt w] that(2)
    have "f \<in> get_all_possible_flags (snd (construct k m d s bt (Some F) w))"
      by blast
    with that(3) construct_flags_mono [OF reachable_allocated [OF that(1)], of k m d s bt "Some F"]
    show ?thesis by blast
  qed
  have c: "get_all_possible_flags (fst (snd (execute builder n r ctx args (w, log)))) =
       get_all_possible_flags w"
    by (simp only: execute_world fst_conv)
  from all_flags_union [of w] a b c show ?thesis by blast
qed

theorem flag_union_witness:
  "get_all_possible_flags init \<subseteq> get_all_possible_flags global_world
   \<and> get_all_possible_flags global_world
       \<subset> get_all_possible_flags
           (snd (construct (DelegatorTarget 0) ''build'' ''Build all'' GLOBAL None (Some {''all''})
                  global_world))"
proof -
  have s: "reachable init \<and> step init global_world"
    unfolding global_world_def using reach_init step.build_system by blast
  have g: "reachable global_world \<and> ''all'' \<in> {''all''} \<and>
      ''all'' \<notin> get_all_possible_flags global_world"
    using reachable_global_world
    by (simp add: get_all_possible_flags_def get_all_targets_def global_world_eq flags_of_def)
  from flag_union [where w = init and w' = global_world, THEN conjunct2, THEN conjunct1,
      THEN mp, OF s, THEN conjunct2]
    flag_union [where w = global_world and f = "''all''" and F = "{''all''}",
      THEN conjunct2, THEN conjunct2, THEN conjunct1, THEN mp, OF g]
  show ?thesis by blast
qed


section \<open>Scopes of registered targets\<close>











section \<open>Defaults of the constructor\<close>

lemma constructed_construct:
  "constructed (construct k m d s bt fl w) = Some (attrs m d s bt fl (Some k))"
  by (cases "s = BOTH") (simp_all add: constructed_def construct_direct construct_both)


text \<open>
  C10. Constructed with \<open>build_type\<close> left at \<open>None\<close>, a target of any of the three classes
  has \<open>build_type = BUILD_NORMAL\<close>, one member of the enumeration and not
  \<open>BUILD_TESTING\<close>; constructed with \<open>flags\<close> left at \<open>None\<close>, it has the empty flag set, so
  that its identity is its mnemonic with the empty set.
\<close>

theorem defaults:
  "map_option build_type (constructed (new_CompositeTarget cs m d s None fl w)) = Some BUILD_NORMAL
   \<and> map_option build_type (constructed (new_BuildSystemTarget b m d s None fl w)) =
       Some BUILD_NORMAL
   \<and> map_option build_type (constructed (new_DelegatorTarget dlg m d s None fl w)) =
       Some BUILD_NORMAL
   \<and> map_option (\<lambda>t. (mnemonic t, flags t)) (constructed (new_CompositeTarget cs m d s bt None w)) =
       Some (m, {})
   \<and> map_option (\<lambda>t. (mnemonic t, flags t)) (constructed (new_BuildSystemTarget b m d s bt None w)) =
       Some (m, {})
   \<and> map_option (\<lambda>t. (mnemonic t, flags t)) (constructed (new_DelegatorTarget dlg m d s bt None w)) =
       Some (m, {})
   \<and> BUILD_NORMAL \<noteq> BUILD_TESTING"
  by (simp add: new_CompositeTarget_construct new_BuildSystemTarget_construct
      new_DelegatorTarget_construct constructed_construct)


section \<open>A target of scope BOTH\<close>

text \<open>
  C1, evaluated on the code. Constructing a build-system target with scope \<open>BOTH\<close>,
  mnemonic \<open>"build"\<close> and flags \<open>{"unit"}\<close> in the empty world registers two delegators to
  it and not the target itself. The local one has the flags \<open>{"unit"}\<close>. The global one has
  the flags \<open>{"unit", "-all"}\<close>: the constructor adds the string \<open>"-all"\<close>, not \<open>"all"\<close>. So
  the lookup of \<open>("build", {"unit", "all"})\<close> finds no target, and the global delegator
  displays as \<open>build --unit ---all\<close>.
\<close>

theorem both_scope_global_flag:
  "new_BuildSystemTarget [] ''build'' ''Build'' BOTH None (Some {''unit''}) init = (0, both_world)
   \<and> get_all_targets both_world = [Suc 0, Suc (Suc 0)]
   \<and> objs both_world (Suc 0) =
       Some \<lparr>mnemonic = ''build'', desc = ''Build'', build_type = BUILD_NORMAL,
             flags = {''unit''}, scope = LOCAL, kind = Some (DelegatorTarget 0)\<rparr>
   \<and> objs both_world (Suc (Suc 0)) =
       Some \<lparr>mnemonic = ''build'', desc = ''Build'', build_type = BUILD_NORMAL,
             flags = {''unit'', ''-all''}, scope = GLOBAL, kind = Some (DelegatorTarget 0)\<rparr>
   \<and> {''unit'', ''-all''} \<noteq> {''unit'', ''all''}
   \<and> get_target (\<lambda>F. [''unit'', ''all'']) ''build'' {''unit'', ''all''} both_world =
       (Inl (NoSuchTargetException
              (''Could not find target '' @ [CHR 0x27] @ ''build --unit --all'' @ [CHR 0x27]))
          :: unit exn + ref)
   \<and> get_target (\<lambda>F. [''unit'', ''-all'']) ''build'' {''unit'', ''-all''} both_world =
       (Inr (Suc (Suc 0)) :: unit exn + ref)
   \<and> Target_str (\<lambda>F. [''unit'', ''-all''])
         \<lparr>mnemonic = ''build'', desc = ''Build'', build_type = BUILD_NORMAL,
           flags = {''unit'', ''-all''}, scope = GLOBAL, kind = Some (DelegatorTarget 0)\<rparr> =
       ''build --unit ---all''"
proof -
  have ne: "{''unit'', ''-all''} \<noteq> {''unit'', ''all''}"
    by (simp add: doubleton_eq_iff)
  have ne2: "{''unit'', ''all''} \<noteq> {''unit''}"
    by simp
  have ne3: "{''unit'', ''-all''} \<noteq> {''unit''}"
    by simp
  have c: "new_BuildSystemTarget [] ''build'' ''Build'' BOTH None (Some {''unit''}) init =
      (0, both_world)"
    by (simp add: both_world_def new_BuildSystemTarget_construct construct_both init_def)
  have f1: "filter (matches both_world ''build'' {''unit'', ''all''}) (get_all_targets both_world) = []"
    using ne ne2 ne [symmetric] by (simp add: both_world_eq get_all_targets_def matches_def)
  have f2: "filter (matches both_world ''build'' {''unit'', ''-all''}) (get_all_targets both_world) =
      [Suc (Suc 0)]"
    using ne3 by (simp add: both_world_eq get_all_targets_def matches_def)
  have g1: "get_target (\<lambda>F. [''unit'', ''all'']) ''build'' {''unit'', ''all''} both_world =
       (Inl (NoSuchTargetException
              (''Could not find target '' @ [CHR 0x27] @ ''build --unit --all'' @ [CHR 0x27]))
          :: unit exn + ref)"
    by (simp add: get_target_def f1 config_string_concat)
  have g2: "get_target (\<lambda>F. [''unit'', ''-all'']) ''build'' {''unit'', ''-all''} both_world =
       (Inr (Suc (Suc 0)) :: unit exn + ref)"
    by (simp add: get_target_def f2)
  have st: "Target_str (\<lambda>F. [''unit'', ''-all''])
         \<lparr>mnemonic = ''build'', desc = ''Build'', build_type = BUILD_NORMAL,
           flags = {''unit'', ''-all''}, scope = GLOBAL, kind = Some (DelegatorTarget 0)\<rparr> =
       ''build --unit ---all''"
    by (simp add: Target_str_def config_string_concat)
  have o: "get_all_targets both_world = [Suc 0, Suc (Suc 0)]"
    "objs both_world (Suc 0) =
       Some \<lparr>mnemonic = ''build'', desc = ''Build'', build_type = BUILD_NORMAL,
             flags = {''unit''}, scope = LOCAL, kind = Some (DelegatorTarget 0)\<rparr>"
    "objs both_world (Suc (Suc 0)) =
       Some \<lparr>mnemonic = ''build'', desc = ''Build'', build_type = BUILD_NORMAL,
             flags = {''unit'', ''-all''}, scope = GLOBAL, kind = Some (DelegatorTarget 0)\<rparr>"
    by (simp_all add: both_world_eq get_all_targets_def)
  show ?thesis
    by (intro conjI) (rule c o ne g1 g2 st)+
qed

end
